theory Spec2Isabelle
  imports Complex_Main "HOL-Library.Word"
begin

section \<open>The form application of \<open>src/react-form-app/src/App.js\<close>\<close>

text \<open>
  The component \<open>App\<close> keeps four pieces of React state (\<open>form\<close>, \<open>preview\<close>,
  \<open>errors\<close>, \<open>submissions\<close>) and talks to three browser services: \<open>localStorage\<close>,
  the object-URL registry (\<open>URL.createObjectURL\<close> / \<open>URL.revokeObjectURL\<close>) and
  \<open>FileReader\<close>. Every handler is modelled as a function from the state of the render
  whose closure it is to the state after its queued updates are applied.
\<close>

subsection \<open>JavaScript strings\<close>

text \<open>
  A JavaScript string is a sequence of 16-bit code units. Literals of the source are
  ASCII and written through \<open>js\<close>.
\<close>

type_synonym jschar = "16 word"
type_synonym jsstring = "jschar list"

definition js :: "string \<Rightarrow> jsstring" where
  "js s = map of_char s"

text \<open>
  The code units that \<open>String.prototype.trim\<close> strips and that \<open>\s\<close> matches in a
  regular expression: ECMAScript's WhiteSpace and LineTerminator.
\<close>

definition is_space :: "jschar \<Rightarrow> bool" where
  "is_space c =
     (c \<in> set [0x9, 0xA, 0xB, 0xC, 0xD, 0x20, 0xA0, 0x1680, 0x2028, 0x2029, 0x202F, 0x205F,
                0x3000, 0xFEFF]
      \<or> (0x2000 \<le> c \<and> c \<le> 0x200A))"

definition trim :: "jsstring \<Rightarrow> jsstring" where
  "trim s = rev (dropWhile is_space (rev (dropWhile is_space s)))"

subsection \<open>The regular expression of the email rule\<close>

text \<open>
  \<open>/^[^@\s]+@[^@\s]+\.[^@\s]+$/\<close> is a sequence of character classes, each matched
  once or one-or-more times (\<open>+\<close>), anchored at both ends. \<open>test\<close> succeeds when some
  way of sharing the string among the items exists, which is what the backtracking
  matcher of the engine finds.
\<close>

datatype atom = Ch jschar | Space

datatype cclass = Is atom | Not "atom list"

datatype quant = Once | OneOrMore

type_synonym regex = "(cclass \<times> quant) list"

fun atom_has :: "atom \<Rightarrow> jschar \<Rightarrow> bool" where
  "atom_has (Ch a) c = (c = a)"
| "atom_has Space c = is_space c"

fun class_has :: "cclass \<Rightarrow> jschar \<Rightarrow> bool" where
  "class_has (Is a) c = atom_has a c"
| "class_has (Not as) c = (\<not> list_ex (\<lambda>a. atom_has a c) as)"

fun test :: "regex \<Rightarrow> jsstring \<Rightarrow> bool" where
  "test [] s = (s = [])"
| "test ((k, q) # r) [] = False"
| "test ((k, Once) # r) (c # s) = (class_has k c \<and> test r s)"
| "test ((k, OneOrMore) # r) (c # s) =
     (class_has k c \<and> (test r s \<or> test ((k, OneOrMore) # r) s))"

definition at_sign :: jschar where
  "at_sign = of_char CHR ''@''"

definition dot :: jschar where
  "dot = of_char CHR ''.''"

definition email_re :: regex where
  "email_re =
     [(Not [Ch at_sign, Space], OneOrMore), (Is (Ch at_sign), Once),
      (Not [Ch at_sign, Space], OneOrMore), (Is (Ch dot), Once),
      (Not [Ch at_sign, Space], OneOrMore)]"

subsection \<open>JavaScript numbers\<close>

text \<open>
  \<open>Number(form.age)\<close> is the conversion of the language, not code of this repository:
  the validator takes it as the parameter \<open>Number\<close>. Of its result the code asks only
  \<open>isNaN\<close> and \<open>\<le> 0\<close>. \<open>Finite 0\<close> stands for both zeros.
\<close>

datatype jsnum = NaN | Finite real | PosInf | NegInf

fun isNaN :: "jsnum \<Rightarrow> bool" where
  "isNaN NaN = True"
| "isNaN _ = False"

text \<open>\<open>n <= 0\<close>; every comparison with \<open>NaN\<close> is false.\<close>

fun le_zero :: "jsnum \<Rightarrow> bool" where
  "le_zero NaN = False"
| "le_zero (Finite r) = (r \<le> 0)"
| "le_zero PosInf = False"
| "le_zero NegInf = True"

subsection \<open>FormState, SubmissionRecord and the validator\<close>

text \<open>
  A \<open>File\<close> object: its identity (the effect's dependency array compares with
  \<open>Object.is\<close>) and its bytes.
\<close>

datatype jsfile = File (file_id: nat) (file_bytes: "8 word list")

record fields =
  name :: jsstring
  email :: jsstring
  age :: jsstring
  gender :: jsstring
  bio :: jsstring
  hobbies :: "jsstring list"

record form = fields +
  agree :: bool
  profile :: "jsfile option"

record submission = fields +
  profileUrl :: "jsstring option"
  timestamp :: jsstring

definition default_form :: form where
  "default_form =
     \<lparr>name = [], email = [], age = [], gender = [], bio = [], hobbies = [],
      agree = False, profile = None\<rparr>"

text \<open>
  The object \<open>e\<close> of \<open>validate\<close>, as the list of its entries in insertion order; each
  key is assigned at most once. \<open>Object.keys(v).length > 0\<close> is \<open>v \<noteq> []\<close>.
\<close>

type_synonym errors = "(string \<times> string) list"

definition validate :: "(jsstring \<Rightarrow> jsnum) \<Rightarrow> form \<Rightarrow> errors" where
  "validate Number f =
     (if trim (name f) = [] then [(''name'', ''Name is required.'')] else []) @
     (if trim (email f) = [] then [(''email'', ''Email is required.'')]
      else if \<not> test email_re (email f) then [(''email'', ''Enter a valid email.'')]
      else []) @
     (if age f \<noteq> [] \<and> (isNaN (Number (age f)) \<or> le_zero (Number (age f)))
      then [(''age'', ''Enter a valid age.'')] else []) @
     (if gender f = [] then [(''gender'', ''Please select your gender.'')] else []) @
     (if \<not> agree f then [(''agree'', ''You must agree to the terms.'')] else [])"

subsection \<open>The state of the component and of the browser\<close>

text \<open>
  \<open>form\<close>, \<open>preview\<close>, \<open>errors\<close> and \<open>submissions\<close> are the \<open>useState\<close> cells. The rest
  is the browser: \<open>storage\<close> is the entry \<open>react_form_submissions\<close> of \<open>localStorage\<close>
  (absent, or the sequence whose JSON text it holds; \<open>JSON.parse\<close> of
  \<open>JSON.stringify\<close> gives back these records, which hold strings, string arrays and
  \<open>null\<close> only); \<open>readers\<close> are the \<open>FileReader\<close>s in flight, each with the \<open>form\<close> and
  the \<open>submissions\<close> that the closure of its \<open>onload\<close> captured; \<open>live_urls\<close> are the
  object URLs created and not yet revoked, \<open>next_url\<close> the next one
  \<open>URL.createObjectURL\<close> hands out; \<open>effect_dep\<close> is \<open>form.profile\<close> at the last run
  of the preview effect and \<open>cleanup\<close> the URL that the cleanup function returned by that
  run revokes.
\<close>

record app_state =
  form :: form
  preview :: "nat option"
  errors :: errors
  submissions :: "submission list"
  storage :: "submission list option"
  readers :: "(form \<times> submission list) list"
  live_urls :: "nat list"
  next_url :: nat
  effect_dep :: "jsfile option"
  cleanup :: "nat option"

text \<open>
  The sequence a stored entry \<open>saved\<close> stands for: what the mount effect
  (\<open>if (saved) setSubmissions(JSON.parse(saved))\<close>) leaves in \<open>submissions\<close>.
\<close>

definition loaded :: "submission list option \<Rightarrow> submission list" where
  "loaded saved = (case saved of None \<Rightarrow> [] | Some xs \<Rightarrow> xs)"

text \<open>
  The state after the first render and its two mount effects: the first effect loads
  the sequence, the second finds \<open>form.profile\<close> null.
\<close>

definition initial :: "submission list option \<Rightarrow> app_state" where
  "initial saved =
     \<lparr>form = default_form, preview = None, errors = [],
      submissions = loaded saved,
      storage = saved, readers = [], live_urls = [], next_url = 0,
      effect_dep = None, cleanup = None\<rparr>"

datatype js_error = QuotaExceededError

text \<open>
  \<open>localStorage.setItem\<close> replaces the entry, or throws when the browser has no room
  for the text. Which sequences fit is the browser's matter: the parameter \<open>fits\<close>.
\<close>

definition setItem ::
  "(submission list \<Rightarrow> bool) \<Rightarrow> submission list \<Rightarrow> app_state \<Rightarrow> js_error + app_state" where
  "setItem fits v s = (if fits v then Inr (s\<lparr>storage := Some v\<rparr>) else Inl QuotaExceededError)"

subsection \<open>The field editor: \<open>handleChange\<close> and \<open>handleFile\<close>\<close>

text \<open>
  \<open>e.target\<close> of a change event. The inputs wired to \<open>handleChange\<close> are the text
  inputs \<open>name\<close>, \<open>email\<close>, \<open>age\<close>, the radio group \<open>gender\<close>, the textarea \<open>bio\<close>, and
  the checkboxes \<open>hobbies\<close> and \<open>agree\<close>; only the last two have the type
  \<open>checkbox\<close>.
\<close>

datatype text_field = Name | Email | Age | Gender | Bio

datatype box = Hobbies | Agree

datatype target = Input text_field jsstring | Checkbox box jsstring bool

fun set_field :: "text_field \<Rightarrow> jsstring \<Rightarrow> form \<Rightarrow> form" where
  "set_field Name v f = f\<lparr>name := v\<rparr>"
| "set_field Email v f = f\<lparr>email := v\<rparr>"
| "set_field Age v f = f\<lparr>age := v\<rparr>"
| "set_field Gender v f = f\<lparr>gender := v\<rparr>"
| "set_field Bio v f = f\<lparr>bio := v\<rparr>"

fun handleChange :: "target \<Rightarrow> app_state \<Rightarrow> app_state" where
  "handleChange (Checkbox Hobbies v checked) s =
     (let next = (if checked then hobbies (form s) @ [v]
                  else filter (\<lambda>h. h \<noteq> v) (hobbies (form s)))
      in s\<lparr>form := (form s)\<lparr>hobbies := next\<rparr>\<rparr>)"
| "handleChange (Checkbox Agree v checked) s = s\<lparr>form := (form s)\<lparr>agree := checked\<rparr>\<rparr>"
| "handleChange (Input k v) s = s\<lparr>form := set_field k v (form s)\<rparr>"

text \<open>\<open>file\<close> is \<open>e.target.files[0] || null\<close>.\<close>

definition handleFile :: "jsfile option \<Rightarrow> app_state \<Rightarrow> app_state" where
  "handleFile file s = s\<lparr>form := (form s)\<lparr>profile := file\<rparr>\<rparr>"

subsection \<open>The submission coordinator: \<open>handleSubmit\<close> and \<open>saveSubmission\<close>\<close>

text \<open>
  \<open>saveSubmission\<close> reads \<open>submissions\<close> from its closure (\<open>subs\<close>) and the clock
  (\<open>now\<close> is the value of \<open>new Date().toISOString()\<close>); \<open>submitted\<close> is the form
  and \<open>url\<close> the \<open>profileUrl\<close> of its argument. When \<open>setItem\<close> throws,
  the updates queued before the call are still applied and the rest of the body is
  not run: the result pairs the error that leaves the handler with the state.
\<close>

definition toSave :: "form \<Rightarrow> jsstring option \<Rightarrow> jsstring \<Rightarrow> submission" where
  "toSave submitted url now =
     \<lparr>name = name submitted, email = email submitted, age = age submitted,
      gender = gender submitted, bio = bio submitted, hobbies = hobbies submitted,
      profileUrl = url, timestamp = now\<rparr>"

definition saveSubmission ::
  "(submission list \<Rightarrow> bool) \<Rightarrow> jsstring \<Rightarrow> submission list \<Rightarrow> form \<Rightarrow> jsstring option
     \<Rightarrow> app_state \<Rightarrow> js_error option \<times> app_state" where
  "saveSubmission fits now subs submitted url s =
     (let next = toSave submitted url now # subs;
          s1 = s\<lparr>submissions := next\<rparr>
      in case setItem fits next s1 of
           Inl err \<Rightarrow> (Some err, s1)
         | Inr s2 \<Rightarrow> (None, s2\<lparr>form := default_form, preview := None, errors := []\<rparr>))"

definition handleSubmit ::
  "(jsstring \<Rightarrow> jsnum) \<Rightarrow> (submission list \<Rightarrow> bool) \<Rightarrow> jsstring \<Rightarrow> app_state
     \<Rightarrow> js_error option \<times> app_state" where
  "handleSubmit Number fits now s =
     (let v = validate Number (form s);
          s1 = s\<lparr>errors := v\<rparr>
      in if v \<noteq> [] then (None, s1)
         else case profile (form s) of
                Some file \<Rightarrow> (None, s1\<lparr>readers := readers s1 @ [(form s, submissions s)]\<rparr>)
              | None \<Rightarrow> saveSubmission fits now (submissions s) (form s) None s1)"

text \<open>
  \<open>reader.onload\<close> of the \<open>k\<close>-th reader in flight, with \<open>reader.result\<close> the data
  URL; there is no such event when no such reader is in flight.
\<close>

definition reader_onload ::
  "(submission list \<Rightarrow> bool) \<Rightarrow> nat \<Rightarrow> jsstring \<Rightarrow> jsstring \<Rightarrow> app_state
     \<Rightarrow> js_error option \<times> app_state" where
  "reader_onload fits k dataUrl now s =
     (if k < length (readers s)
      then saveSubmission fits now (snd (readers s ! k)) (fst (readers s ! k)) (Some dataUrl)
             (s\<lparr>readers := take k (readers s) @ drop (Suc k) (readers s)\<rparr>)
      else (None, s))"

text \<open>The \<open>onClick\<close> of the Reset button.\<close>

definition reset :: "app_state \<Rightarrow> app_state" where
  "reset s = s\<lparr>form := default_form, preview := None, errors := []\<rparr>"

subsection \<open>The submission log viewer: \<open>handleDelete\<close>\<close>

definition handleDelete ::
  "(submission list \<Rightarrow> bool) \<Rightarrow> jsstring \<Rightarrow> app_state \<Rightarrow> js_error option \<times> app_state" where
  "handleDelete fits ts s =
     (let next = filter (\<lambda>r. timestamp r \<noteq> ts) (submissions s);
          s1 = s\<lparr>submissions := next\<rparr>
      in case setItem fits next s1 of
           Inl err \<Rightarrow> (Some err, s1)
         | Inr s2 \<Rightarrow> (None, s2))"

subsection \<open>The preview effect\<close>

text \<open>
  \<open>useEffect(..., [form.profile])\<close>: after a render in which \<open>form.profile\<close> differs
  from its value at the last run, React first calls the cleanup function that run
  returned, if any, and then runs the effect again.
\<close>

definition revokeObjectURL :: "nat \<Rightarrow> app_state \<Rightarrow> app_state" where
  "revokeObjectURL u s = s\<lparr>live_urls := removeAll u (live_urls s)\<rparr>"

definition createObjectURL :: "app_state \<Rightarrow> nat \<times> app_state" where
  "createObjectURL s =
     (next_url s, s\<lparr>live_urls := live_urls s @ [next_url s], next_url := Suc (next_url s)\<rparr>)"

definition run_cleanup :: "app_state \<Rightarrow> app_state" where
  "run_cleanup s =
     (case cleanup s of
        None \<Rightarrow> s
      | Some objectUrl \<Rightarrow> (revokeObjectURL objectUrl s)\<lparr>cleanup := None\<rparr>)"

definition preview_effect :: "app_state \<Rightarrow> app_state" where
  "preview_effect s =
     (case profile (form s) of
        None \<Rightarrow> s\<lparr>preview := None, cleanup := None\<rparr>
      | Some file \<Rightarrow>
          (let objectUrl = fst (createObjectURL s);
               s1 = snd (createObjectURL s)
           in s1\<lparr>preview := Some objectUrl, cleanup := Some objectUrl\<rparr>))"

definition commit :: "app_state \<Rightarrow> app_state" where
  "commit s =
     (if profile (form s) = effect_dep s then s
      else (preview_effect (run_cleanup s))\<lparr>effect_dep := profile (form s)\<rparr>)"

subsection \<open>Events\<close>

text \<open>
  One event at a time: its handler runs on the current state, then the render it
  causes commits and runs the preview effect. An error that leaves a handler goes to
  the browser's error reporting; the component keeps running.
\<close>

datatype event =
    Change target
  | FilePick "jsfile option"
  | Submit jsstring
  | ReaderLoad nat jsstring jsstring
  | Delete jsstring
  | Reset

fun handler ::
  "(jsstring \<Rightarrow> jsnum) \<Rightarrow> (submission list \<Rightarrow> bool) \<Rightarrow> event \<Rightarrow> app_state
     \<Rightarrow> js_error option \<times> app_state" where
  "handler Number fits (Change t) s = (None, handleChange t s)"
| "handler Number fits (FilePick file) s = (None, handleFile file s)"
| "handler Number fits (Submit now) s = handleSubmit Number fits now s"
| "handler Number fits (ReaderLoad k dataUrl now) s = reader_onload fits k dataUrl now s"
| "handler Number fits (Delete ts) s = handleDelete fits ts s"
| "handler Number fits Reset s = (None, reset s)"

definition dispatch ::
  "(jsstring \<Rightarrow> jsnum) \<Rightarrow> (submission list \<Rightarrow> bool) \<Rightarrow> event \<Rightarrow> app_state \<Rightarrow> app_state" where
  "dispatch Number fits ev s = commit (snd (handler Number fits ev s))"

fun run ::
  "(jsstring \<Rightarrow> jsnum) \<Rightarrow> (submission list \<Rightarrow> bool) \<Rightarrow> event list \<Rightarrow> app_state \<Rightarrow> app_state" where
  "run Number fits [] s = s"
| "run Number fits (ev # evs) s = run Number fits evs (dispatch Number fits ev s)"

subsection \<open>Notions of the specification\<close>

text \<open>
  "Parses as a number strictly greater than zero", in the specification's words, for
  the result of \<open>Number\<close>.
\<close>

fun gt_zero :: "jsnum \<Rightarrow> bool" where
  "gt_zero NaN = False"
| "gt_zero (Finite r) = (0 < r)"
| "gt_zero PosInf = True"
| "gt_zero NegInf = False"

text \<open>
  A character that is neither \<open>@\<close> nor whitespace, and "the string has a \<open>.\<close> after
  the \<open>@\<close>" (after its first \<open>@\<close>; false when it has none).
\<close>

definition plain :: "jschar \<Rightarrow> bool" where
  "plain c = (c \<noteq> at_sign \<and> \<not> is_space c)"

definition dot_after_at :: "jsstring \<Rightarrow> bool" where
  "dot_after_at s = (dot \<in> set (dropWhile (\<lambda>c. c \<noteq> at_sign) s))"

text \<open>The FormState of the specification's first scenario, every other field at its default.\<close>

definition ana :: form where
  "ana =
     \<lparr>name = js ''Ana'', email = js ''ana@x.com'', age = [], gender = js ''female'',
      bio = [], hobbies = [], agree = True, profile = None\<rparr>"

text \<open>The input events that fill the default form with it.\<close>

definition fill_ana :: "event list" where
  "fill_ana =
     [Change (Input Name (js ''Ana'')), Change (Input Email (js ''ana@x.com'')),
      Change (Input Gender (js ''female'')), Change (Checkbox Agree (js ''on'') True)]"

text \<open>
  The hobby checkboxes are controlled (\<open>checked={form.hobbies.includes(h)}\<close>): a click
  toggles what the render shows, so the change event of the box of \<open>v\<close> carries
  \<open>checked = true\<close> exactly when \<open>v\<close> is not in \<open>hobbies\<close>. \<open>ui_run\<close> holds of a
  sequence of events that respects this at every step.
\<close>

fun ui_event :: "app_state \<Rightarrow> event \<Rightarrow> bool" where
  "ui_event s (Change (Checkbox Hobbies v checked)) = (checked = (v \<notin> set (hobbies (form s))))"
| "ui_event s ev = True"

fun ui_run ::
  "(jsstring \<Rightarrow> jsnum) \<Rightarrow> (submission list \<Rightarrow> bool) \<Rightarrow> event list \<Rightarrow> app_state \<Rightarrow> bool" where
  "ui_run Number fits [] s = True"
| "ui_run Number fits (ev # evs) s =
     (ui_event s ev \<and> ui_run Number fits evs (dispatch Number fits ev s))"


text \<open>
  The preview effect is up to date: it ran for the current \<open>form.profile\<close>, the URL
  shown is the one its cleanup will revoke, and that URL is the only live one.
\<close>

definition preview_inv :: "app_state \<Rightarrow> bool" where
  "preview_inv s =
     (effect_dep s = profile (form s) \<and> preview s = cleanup s
      \<and> live_urls s = (case cleanup s of None \<Rightarrow> [] | Some u \<Rightarrow> [u])
      \<and> ((cleanup s = None) = (profile (form s) = None)))"

text \<open>
  What no handler touches: the effect's bookkeeping and the URL registry. A handler
  either leaves \<open>preview\<close> alone or sets it to null together with \<open>form.profile\<close>.
\<close>

definition same_browser :: "app_state \<Rightarrow> app_state \<Rightarrow> bool" where
  "same_browser s h =
     (cleanup h = cleanup s \<and> live_urls h = live_urls s \<and> effect_dep h = effect_dep s
      \<and> next_url h = next_url s
      \<and> (preview h = preview s \<or> preview h = None \<and> profile (form h) = None))"

section \<open>Properties\<close>

subsection \<open>Evaluation\<close>

lemma js_simps: "js [] = []" "js (c # cs) = of_char c # js cs"
  by (simp_all add: js_def)

lemmas eval_simps = js_simps email_re_def at_sign_def dot_def is_space_def trim_def

lemma loaded_simps [simp]: "loaded None = []" "loaded (Some xs) = xs"
  by (simp_all add: loaded_def)

lemma gt_zero_iff: "gt_zero n \<longleftrightarrow> \<not> (isNaN n \<or> le_zero n)"
  by (cases n) auto

lemma test_ana: "test email_re (js ''ana@x.com'')"
  by (simp add: eval_simps)

lemma validate_ana_like:
  assumes "name f = js ''Ana''" "email f = js ''ana@x.com''" "gender f = js ''female''"
    "agree f" "age f = [] \<or> gt_zero (Number (age f))"
  shows "validate Number f = []"
  using assms test_ana by (auto simp add: validate_def gt_zero_iff eval_simps)

subsection \<open>The handlers, step by step\<close>

lemma saveSubmission_fits:
  "fits (toSave f u t # subs) \<Longrightarrow>
     saveSubmission fits t subs f u s =
       (None, s\<lparr>submissions := toSave f u t # subs, storage := Some (toSave f u t # subs),
                form := default_form, preview := None, errors := []\<rparr>)"
  by (simp add: saveSubmission_def setItem_def Let_def)

lemma saveSubmission_refused:
  "\<not> fits (toSave f u t # subs) \<Longrightarrow>
     saveSubmission fits t subs f u s =
       (Some QuotaExceededError, s\<lparr>submissions := toSave f u t # subs\<rparr>)"
  by (simp add: saveSubmission_def setItem_def Let_def)

lemma handleSubmit_valid:
  "validate Number (form s) = [] \<Longrightarrow> profile (form s) = None \<Longrightarrow>
     handleSubmit Number fits t s =
       saveSubmission fits t (submissions s) (form s) None (s\<lparr>errors := []\<rparr>)"
  by (simp add: handleSubmit_def Let_def)

lemma saveSubmission_form:
  "form (snd (saveSubmission fits now subs f u s)) = form s
   \<or> form (snd (saveSubmission fits now subs f u s)) = default_form"
  by (simp add: saveSubmission_def setItem_def Let_def)

lemma saveSubmission_frame: "same_browser s (snd (saveSubmission fits now subs f u s))"
  by (simp add: same_browser_def saveSubmission_def setItem_def Let_def default_form_def)

lemma handleDelete_submissions:
  "submissions (snd (handleDelete fits ts s)) = filter (\<lambda>r. timestamp r \<noteq> ts) (submissions s)"
  by (simp add: handleDelete_def setItem_def Let_def)

lemma handleDelete_fits:
  "fits (filter (\<lambda>r. timestamp r \<noteq> ts) (submissions s)) \<Longrightarrow>
     handleDelete fits ts s =
       (None, s\<lparr>submissions := filter (\<lambda>r. timestamp r \<noteq> ts) (submissions s),
                storage := Some (filter (\<lambda>r. timestamp r \<noteq> ts) (submissions s))\<rparr>)"
  by (simp add: handleDelete_def setItem_def Let_def)

lemma filter_absent: "ts \<notin> timestamp ` set xs \<Longrightarrow> filter (\<lambda>r. timestamp r \<noteq> ts) xs = xs"
  by (induction xs) auto

lemma filter_neq_removeAll: "filter (\<lambda>h. h \<noteq> v) xs = removeAll v xs"
  by (induction xs) auto

lemma form_commit: "form (commit s) = form s"
  by (simp add: commit_def preview_effect_def run_cleanup_def revokeObjectURL_def
      createObjectURL_def Let_def split: option.splits)

lemma set_field_hobbies: "hobbies (set_field k v f) = hobbies f"
  by (cases k) simp_all

subsection \<open>Submitting\<close>

text \<open>
  Claim C1. When the validator's result for the current form is not empty, a submit
  attempt publishes exactly that result in \<open>errors\<close> and does nothing else: no error
  leaves the handler, and the state after it is the state before it with \<open>errors\<close>
  replaced. So the form, the submissions and the stored snapshot are as they were, and
  no reader was started.
\<close>

theorem submit_invalid_halts:
  assumes "validate Number (form s) \<noteq> []"
  shows "handleSubmit Number fits now s = (None, s\<lparr>errors := validate Number (form s)\<rparr>)
         \<and> errors (snd (handleSubmit Number fits now s)) = validate Number (form s)
         \<and> form (snd (handleSubmit Number fits now s)) = form s
         \<and> submissions (snd (handleSubmit Number fits now s)) = submissions s
         \<and> storage (snd (handleSubmit Number fits now s)) = storage s
         \<and> readers (snd (handleSubmit Number fits now s)) = readers s"
  using assms by (simp add: handleSubmit_def Let_def)

text \<open>The scenario of the specification: the form of Ana with the email \<open>bad\<close>.\<close>

theorem submit_invalid_halts_witness:
  "validate (\<lambda>a. NaN) (form ((initial None)\<lparr>form := ana\<lparr>email := js ''bad''\<rparr>\<rparr>))
     = [(''email'', ''Enter a valid email.'')]
   \<and> handleSubmit (\<lambda>a. NaN) (\<lambda>xs. True) (js ''2026-11-02T09:30:00.000Z'')
         ((initial None)\<lparr>form := ana\<lparr>email := js ''bad''\<rparr>\<rparr>)
       = (None, (initial None)\<lparr>form := ana\<lparr>email := js ''bad''\<rparr>,
                                errors := [(''email'', ''Enter a valid email.'')]\<rparr>)"
proof -
  have v: "validate (\<lambda>a. NaN) (form ((initial None)\<lparr>form := ana\<lparr>email := js ''bad''\<rparr>\<rparr>))
             = [(''email'', ''Enter a valid email.'')]"
    by (simp add: validate_def ana_def eval_simps)
  then have "validate (\<lambda>a. NaN) (form ((initial None)\<lparr>form := ana\<lparr>email := js ''bad''\<rparr>\<rparr>)) \<noteq> []"
    by simp
  from submit_invalid_halts [OF this] v show ?thesis
    by simp
qed

text \<open>
  Claim C2, as the code has it. For a form with name \<open>Ana\<close>, email \<open>ana@x.com\<close>,
  gender \<open>female\<close>, \<open>agree\<close> true and no profile image (the age empty, as in the
  scenario, or parsing as a positive number; any bio and hobbies), submit builds the
  record of these fields with a null \<open>profileUrl\<close> and puts it at index 0 of the
  in-memory sequence. When the browser accepts the write, submit ends without an
  error, the whole new sequence is the stored snapshot, the form is the all-default
  form (every text field empty, no hobbies, \<open>agree\<close> false, no profile) and the
  validation result is empty. When the browser refuses the write, the error leaves
  the handler, the snapshot is as it was and the form is not reset.
\<close>

theorem submit_ana:
  assumes "name (form s) = js ''Ana''" and "email (form s) = js ''ana@x.com''"
    and "gender (form s) = js ''female''" and "agree (form s)"
    and "profile (form s) = None"
    and "age (form s) = [] \<or> gt_zero (Number (age (form s)))"
  shows "toSave (form s) None now =
           \<lparr>name = js ''Ana'', email = js ''ana@x.com'', age = age (form s),
            gender = js ''female'', bio = bio (form s), hobbies = hobbies (form s),
            profileUrl = None, timestamp = now\<rparr>
         \<and> submissions (snd (handleSubmit Number fits now s))
             = toSave (form s) None now # submissions s
         \<and> submissions (snd (handleSubmit Number fits now s)) ! 0 = toSave (form s) None now
         \<and> (fits (toSave (form s) None now # submissions s) \<longrightarrow>
              handleSubmit Number fits now s =
                (None, s\<lparr>form := \<lparr>name = [], email = [], age = [], gender = [], bio = [],
                                  hobbies = [], agree = False, profile = None\<rparr>,
                         preview := None, errors := [],
                         submissions := toSave (form s) None now # submissions s,
                         storage := Some (toSave (form s) None now # submissions s)\<rparr>))
         \<and> (\<not> fits (toSave (form s) None now # submissions s) \<longrightarrow>
              fst (handleSubmit Number fits now s) = Some QuotaExceededError
              \<and> form (snd (handleSubmit Number fits now s)) = form s
              \<and> storage (snd (handleSubmit Number fits now s)) = storage s)"
proof -
  have v: "validate Number (form s) = []"
    using assms by (intro validate_ana_like) auto
  have r: "toSave (form s) None now =
           \<lparr>name = js ''Ana'', email = js ''ana@x.com'', age = age (form s),
            gender = js ''female'', bio = bio (form s), hobbies = hobbies (form s),
            profileUrl = None, timestamp = now\<rparr>"
    using assms(1-3) by (simp add: toSave_def)
  have h: "handleSubmit Number fits now s
             = saveSubmission fits now (submissions s) (form s) None (s\<lparr>errors := []\<rparr>)"
    using v assms(5) by (simp add: handleSubmit_def Let_def)
  have rest: "submissions (snd (handleSubmit Number fits now s))
             = toSave (form s) None now # submissions s
         \<and> (fits (toSave (form s) None now # submissions s) \<longrightarrow>
              handleSubmit Number fits now s =
                (None, s\<lparr>form := \<lparr>name = [], email = [], age = [], gender = [], bio = [],
                                  hobbies = [], agree = False, profile = None\<rparr>,
                         preview := None, errors := [],
                         submissions := toSave (form s) None now # submissions s,
                         storage := Some (toSave (form s) None now # submissions s)\<rparr>))
         \<and> (\<not> fits (toSave (form s) None now # submissions s) \<longrightarrow>
              fst (handleSubmit Number fits now s) = Some QuotaExceededError
              \<and> form (snd (handleSubmit Number fits now s)) = form s
              \<and> storage (snd (handleSubmit Number fits now s)) = storage s)"
    unfolding h by (simp add: saveSubmission_def setItem_def Let_def default_form_def)
  from r rest show ?thesis by simp
qed

text \<open>The scenario of the specification, from the initial state with nothing stored.\<close>

theorem submit_ana_witness:
  "handleSubmit (\<lambda>a. NaN) (\<lambda>xs. True) (js ''2026-11-02T09:30:00.000Z'')
     ((initial None)\<lparr>form := ana\<rparr>) =
     (None,
      \<lparr>form = \<lparr>name = [], email = [], age = [], gender = [], bio = [], hobbies = [],
               agree = False, profile = None\<rparr>,
       preview = None, errors = [],
       submissions =
         [\<lparr>name = js ''Ana'', email = js ''ana@x.com'', age = [], gender = js ''female'',
           bio = [], hobbies = [], profileUrl = None,
           timestamp = js ''2026-11-02T09:30:00.000Z''\<rparr>],
       storage =
         Some [\<lparr>name = js ''Ana'', email = js ''ana@x.com'', age = [],
                gender = js ''female'', bio = [], hobbies = [], profileUrl = None,
                timestamp = js ''2026-11-02T09:30:00.000Z''\<rparr>],
       readers = [], live_urls = [], next_url = 0, effect_dep = None, cleanup = None\<rparr>)"
  using submit_ana [of "(initial None)\<lparr>form := ana\<rparr>" "\<lambda>a. NaN"
      "js ''2026-11-02T09:30:00.000Z''" "\<lambda>xs. True"]
  by (simp add: ana_def initial_def)

text \<open>
  The same form and state, in a browser that refuses the write: an error, nothing
  stored, and the form still Ana's, not the default one.
\<close>

theorem submit_ana_refused:
  "fst (handleSubmit (\<lambda>a. NaN) (\<lambda>xs. False) (js ''2026-11-02T09:30:00.000Z'')
          ((initial None)\<lparr>form := ana\<rparr>)) = Some QuotaExceededError
   \<and> form (snd (handleSubmit (\<lambda>a. NaN) (\<lambda>xs. False) (js ''2026-11-02T09:30:00.000Z'')
          ((initial None)\<lparr>form := ana\<rparr>)))
       = \<lparr>name = js ''Ana'', email = js ''ana@x.com'', age = [], gender = js ''female'',
          bio = [], hobbies = [], agree = True, profile = None\<rparr>
   \<and> storage (snd (handleSubmit (\<lambda>a. NaN) (\<lambda>xs. False) (js ''2026-11-02T09:30:00.000Z'')
          ((initial None)\<lparr>form := ana\<rparr>))) = None"
proof -
  have "validate (\<lambda>a. NaN) (form ((initial None)\<lparr>form := ana\<rparr>)) = []"
    by (rule validate_ana_like) (simp_all add: ana_def)
  moreover have "profile (form ((initial None)\<lparr>form := ana\<rparr>)) = None"
    by (simp add: ana_def)
  ultimately have "handleSubmit (\<lambda>a. NaN) (\<lambda>xs. False) (js ''2026-11-02T09:30:00.000Z'')
      ((initial None)\<lparr>form := ana\<rparr>)
    = (Some QuotaExceededError,
       (initial None)\<lparr>form := ana, errors := [],
         submissions := toSave ana None (js ''2026-11-02T09:30:00.000Z'') # []\<rparr>)"
    by (simp add: handleSubmit_valid saveSubmission_refused) (simp add: initial_def)
  then show ?thesis
    by (simp add: ana_def initial_def)
qed

text \<open>
  Claim C8. When the browser refuses the write of the persist step, the error leaves
  \<open>saveSubmission\<close> (nothing catches it), and the state is the one before the call with
  only the in-memory sequence replaced: the form is not reset and the stored snapshot
  is not touched, the write having been tried once. This holds for \<open>saveSubmission\<close>
  itself, for a submit without an image (also after the render it causes), and for
  the \<open>onload\<close> of a reader.
\<close>

theorem persist_failure_keeps_form:
  "(\<not> fits (toSave submitted url now # subs) \<longrightarrow>
      saveSubmission fits now subs submitted url s =
        (Some QuotaExceededError, s\<lparr>submissions := toSave submitted url now # subs\<rparr>))
   \<and> (validate Number (form s) = [] \<and> profile (form s) = None
        \<and> \<not> fits (toSave (form s) None now # submissions s) \<longrightarrow>
      fst (handleSubmit Number fits now s) = Some QuotaExceededError
      \<and> form (snd (handleSubmit Number fits now s)) = form s
      \<and> storage (snd (handleSubmit Number fits now s)) = storage s
      \<and> form (dispatch Number fits (Submit now) s) = form s
      \<and> storage (dispatch Number fits (Submit now) s) = storage s)
   \<and> (k < length (readers s)
        \<and> \<not> fits (toSave (fst (readers s ! k)) (Some dataUrl) now # snd (readers s ! k)) \<longrightarrow>
      fst (reader_onload fits k dataUrl now s) = Some QuotaExceededError
      \<and> form (snd (reader_onload fits k dataUrl now s)) = form s
      \<and> storage (snd (reader_onload fits k dataUrl now s)) = storage s)"
  by (simp add: saveSubmission_def setItem_def handleSubmit_def reader_onload_def
      dispatch_def commit_def preview_effect_def run_cleanup_def revokeObjectURL_def
      createObjectURL_def Let_def split: option.splits)

text \<open>A full storage, at a submit of Ana's form and at the load of a reader started for it.\<close>

theorem persist_failure_keeps_form_witness:
  "fst (handleSubmit (\<lambda>a. NaN) (\<lambda>xs. False) (js ''2026-11-02T09:30:00.000Z'')
          ((initial None)\<lparr>form := ana\<rparr>)) = Some QuotaExceededError
   \<and> form (snd (handleSubmit (\<lambda>a. NaN) (\<lambda>xs. False) (js ''2026-11-02T09:30:00.000Z'')
          ((initial None)\<lparr>form := ana\<rparr>))) = ana
   \<and> storage (snd (handleSubmit (\<lambda>a. NaN) (\<lambda>xs. False) (js ''2026-11-02T09:30:00.000Z'')
          ((initial None)\<lparr>form := ana\<rparr>))) = None
   \<and> fst (reader_onload (\<lambda>xs. False) 0 (js ''data:image/png;base64,AA=='')
          (js ''2026-11-02T09:30:00.000Z'')
          ((initial None)\<lparr>form := ana\<lparr>profile := Some (File 1 [0])\<rparr>,
                           readers := [(ana\<lparr>profile := Some (File 1 [0])\<rparr>, [])]\<rparr>))
       = Some QuotaExceededError
   \<and> form (snd (reader_onload (\<lambda>xs. False) 0 (js ''data:image/png;base64,AA=='')
          (js ''2026-11-02T09:30:00.000Z'')
          ((initial None)\<lparr>form := ana\<lparr>profile := Some (File 1 [0])\<rparr>,
                           readers := [(ana\<lparr>profile := Some (File 1 [0])\<rparr>, [])]\<rparr>)))
       = ana\<lparr>profile := Some (File 1 [0])\<rparr>"
proof -
  have v: "validate (\<lambda>a. NaN) (form ((initial None)\<lparr>form := ana\<rparr>)) = []"
    by (rule validate_ana_like) (simp_all add: ana_def)
  have p: "profile (form ((initial None)\<lparr>form := ana\<rparr>)) = None"
    by (simp add: ana_def)
  have a: "storage ((initial None)\<lparr>form := ana\<rparr>) = None"
    by (simp add: initial_def)
  note sub = persist_failure_keeps_form [of "\<lambda>xs. False" ana None
      "js ''2026-11-02T09:30:00.000Z''" "[]" "(initial None)\<lparr>form := ana\<rparr>" "\<lambda>a. NaN" 0
      "js ''data:image/png;base64,AA==''"]
  note rd = persist_failure_keeps_form [of "\<lambda>xs. False" ana None
      "js ''2026-11-02T09:30:00.000Z''" "[]"
      "(initial None)\<lparr>form := ana\<lparr>profile := Some (File 1 [0])\<rparr>,
                       readers := [(ana\<lparr>profile := Some (File 1 [0])\<rparr>, [])]\<rparr>"
      "\<lambda>a. NaN" 0 "js ''data:image/png;base64,AA==''"]
  from sub v p a rd show ?thesis
    by simp
qed

subsection \<open>The validator\<close>

text \<open>
  Claim C5. The validator's result has no \<open>age\<close> entry when the age field is empty;
  for a non-empty age it has the entry exactly when \<open>Number\<close> of the field is not a
  number strictly greater than zero.
\<close>

theorem age_rule:
  "map_of (validate Number f) ''age'' =
     (if age f \<noteq> [] \<and> \<not> gt_zero (Number (age f)) then Some ''Enter a valid age.'' else None)"
  by (simp add: validate_def gt_zero_iff)

text \<open>
  At a conversion that reads \<open>23\<close> and nothing else: \<open>23\<close> passes, \<open>abc\<close> does not;
  and the empty field passes although \<open>Number\<close> of it is zero.
\<close>

theorem age_rule_witness:
  "map_of (validate (\<lambda>a. if a = js ''23'' then Finite 23 else NaN) (ana\<lparr>age := js ''23''\<rparr>))
      ''age'' = None
   \<and> map_of (validate (\<lambda>a. if a = js ''23'' then Finite 23 else NaN) (ana\<lparr>age := js ''abc''\<rparr>))
        ''age'' = Some ''Enter a valid age.''
   \<and> map_of (validate (\<lambda>a. Finite 0) ana) ''age'' = None"
  using age_rule [of "\<lambda>a. if a = js ''23'' then Finite 23 else NaN" "ana\<lparr>age := js ''23''\<rparr>"]
    age_rule [of "\<lambda>a. if a = js ''23'' then Finite 23 else NaN" "ana\<lparr>age := js ''abc''\<rparr>"]
    age_rule [of "\<lambda>a. Finite 0" ana]
  by (simp add: ana_def js_simps)

text \<open>What the regular expression accepts, item by item.\<close>

lemma class_has_plain: "class_has (Not [Ch at_sign, Space]) c = plain c"
  by (auto simp add: plain_def)

lemma test_once:
  "test ((k, Once) # r) s \<longleftrightarrow> (\<exists>c t. s = c # t \<and> class_has k c \<and> test r t)"
  by (cases s) auto

lemma test_plus:
  "test ((k, OneOrMore) # r) s \<longleftrightarrow>
     (\<exists>x t. s = x @ t \<and> x \<noteq> [] \<and> list_all (class_has k) x \<and> test r t)"
proof (induction s)
  case Nil
  then show ?case by simp
next
  case (Cons c s)
  show ?case
  proof
    assume "test ((k, OneOrMore) # r) (c # s)"
    then have c: "class_has k c" and d: "test r s \<or> test ((k, OneOrMore) # r) s"
      by auto
    from d show "\<exists>x t. c # s = x @ t \<and> x \<noteq> [] \<and> list_all (class_has k) x \<and> test r t"
    proof
      assume "test r s"
      with c have "c # s = [c] @ s \<and> [c] \<noteq> [] \<and> list_all (class_has k) [c] \<and> test r s"
        by simp
      then show ?thesis by blast
    next
      assume "test ((k, OneOrMore) # r) s"
      with Cons.IH obtain x t where "s = x @ t" "list_all (class_has k) x" "test r t"
        by blast
      with c have "c # s = (c # x) @ t \<and> c # x \<noteq> [] \<and> list_all (class_has k) (c # x) \<and> test r t"
        by simp
      then show ?thesis by blast
    qed
  next
    assume "\<exists>x t. c # s = x @ t \<and> x \<noteq> [] \<and> list_all (class_has k) x \<and> test r t"
    then obtain x t where xt: "c # s = x @ t" "x \<noteq> []" "list_all (class_has k) x" "test r t"
      by blast
    then obtain x' where x: "x = c # x'" "s = x' @ t"
      by (cases x) auto
    show "test ((k, OneOrMore) # r) (c # s)"
    proof (cases "x' = []")
      case True
      with x xt show ?thesis by simp
    next
      case False
      with x xt have "test ((k, OneOrMore) # r) s"
        using Cons.IH by auto
      with x xt show ?thesis by simp
    qed
  qed
qed

lemma test_email_re:
  "test email_re s \<longleftrightarrow>
     (\<exists>x y z. s = x @ at_sign # y @ dot # z \<and> x \<noteq> [] \<and> y \<noteq> [] \<and> z \<noteq> []
        \<and> list_all plain x \<and> list_all plain y \<and> list_all plain z)"
  unfolding email_re_def test_plus test_once class_has_plain
  by (simp add: list_all_iff) blast

lemma trim_Nil: "trim s = [] \<longleftrightarrow> list_all is_space s"
proof -
  have "dropWhile is_space s \<noteq> [] \<Longrightarrow> \<not> is_space (hd (dropWhile is_space s))"
    by (rule hd_dropWhile)
  then have "(\<forall>c\<in>set (dropWhile is_space s). is_space c) \<longleftrightarrow> dropWhile is_space s = []"
    by (cases "dropWhile is_space s") (auto simp del: dropWhile_eq_Nil_conv)
  then have "trim s = [] \<longleftrightarrow> dropWhile is_space s = []"
    by (simp add: trim_def)
  then show ?thesis
    by (simp add: list_all_iff)
qed

lemma shaped_not_blank:
  assumes "s = x @ at_sign # y @ dot # z" "x \<noteq> []" "list_all plain x"
  shows "trim s \<noteq> []"
proof -
  from assms obtain c x' where "x = c # x'" "plain c"
    by (cases x) auto
  with assms(1) have "\<not> list_all is_space s"
    by (simp add: plain_def)
  then show ?thesis by (simp add: trim_Nil)
qed

lemma shaped_dot_after_at:
  assumes "s = x @ at_sign # y @ dot # z" "list_all plain x"
  shows "dot_after_at s"
proof -
  from assms(2)
  have "dropWhile (\<lambda>c. c \<noteq> at_sign) (x @ at_sign # y @ dot # z) = at_sign # y @ dot # z"
    by (induction x) (auto simp add: plain_def)
  with assms(1) show ?thesis
    by (simp add: dot_after_at_def)
qed

lemma no_at_no_dot_after: "at_sign \<notin> set s \<Longrightarrow> \<not> dot_after_at s"
proof -
  assume "at_sign \<notin> set s"
  then have "dropWhile (\<lambda>c. c \<noteq> at_sign) s = []"
    by (induction s) auto
  then show ?thesis
    by (simp only: dot_after_at_def) simp
qed

lemma email_error_iff:
  "map_of (validate Number f) ''email'' = None \<longleftrightarrow> test email_re (email f)"
proof -
  have "test email_re (email f) \<Longrightarrow> trim (email f) \<noteq> []"
    using shaped_not_blank by (auto simp add: test_email_re)
  then show ?thesis
    by (auto simp add: validate_def)
qed

text \<open>
  Claim C4, as the code has it. An email that is empty after trimming gets the entry
  \<open>Email is required.\<close>; every string without an \<open>@\<close>, or without a \<open>.\<close> after the
  \<open>@\<close>, gets an \<open>email\<close> entry; and a string \<open>x@y.z\<close> gets none when \<open>x\<close>, \<open>y\<close> and
  \<open>z\<close> are non-empty and hold neither whitespace nor \<open>@\<close>. These are the only strings
  with no \<open>email\<close> entry: having one \<open>@\<close>, a later \<open>.\<close> and no whitespace is not
  enough, the \<open>@\<close> and that \<open>.\<close> need such a character on each side.
\<close>

theorem email_rule:
  "(trim (email f) = [] \<longrightarrow> map_of (validate Number f) ''email'' = Some ''Email is required.'')
   \<and> (at_sign \<notin> set (email f) \<or> \<not> dot_after_at (email f) \<longrightarrow>
        map_of (validate Number f) ''email'' \<noteq> None)
   \<and> (email f = x @ at_sign # y @ dot # z \<and> x \<noteq> [] \<and> y \<noteq> [] \<and> z \<noteq> []
        \<and> list_all plain x \<and> list_all plain y \<and> list_all plain z \<longrightarrow>
      map_of (validate Number f) ''email'' = None)
   \<and> (map_of (validate Number f) ''email'' = None \<longleftrightarrow>
        (\<exists>x y z. email f = x @ at_sign # y @ dot # z \<and> x \<noteq> [] \<and> y \<noteq> [] \<and> z \<noteq> []
           \<and> list_all plain x \<and> list_all plain y \<and> list_all plain z))"
proof -
  have 1: "trim (email f) = [] \<longrightarrow>
             map_of (validate Number f) ''email'' = Some ''Email is required.''"
    by (simp add: validate_def)
  have 4: "map_of (validate Number f) ''email'' = None \<longleftrightarrow>
        (\<exists>x y z. email f = x @ at_sign # y @ dot # z \<and> x \<noteq> [] \<and> y \<noteq> [] \<and> z \<noteq> []
           \<and> list_all plain x \<and> list_all plain y \<and> list_all plain z)"
    by (simp only: email_error_iff test_email_re)
  have 2: "\<not> dot_after_at (email f) \<longrightarrow> map_of (validate Number f) ''email'' \<noteq> None"
    using 4 shaped_dot_after_at by blast
  have 3: "at_sign \<notin> set (email f) \<longrightarrow> \<not> dot_after_at (email f)"
    by (simp add: no_at_no_dot_after)
  from 1 2 3 4 show ?thesis by blast
qed

text \<open>Ana's email has the shape; a blank one and \<open>bad\<close> get their entries.\<close>

theorem email_rule_witness:
  "map_of (validate (\<lambda>a. NaN) ana) ''email'' = None
   \<and> map_of (validate (\<lambda>a. NaN) (ana\<lparr>email := js ''  ''\<rparr>)) ''email'' = Some ''Email is required.''
   \<and> \<not> dot_after_at (js ''bad'')
   \<and> map_of (validate (\<lambda>a. NaN) (ana\<lparr>email := js ''bad''\<rparr>)) ''email'' \<noteq> None"
proof -
  have shape: "email ana = js ''ana'' @ at_sign # js ''x'' @ dot # js ''com''
      \<and> js ''ana'' \<noteq> [] \<and> js ''x'' \<noteq> [] \<and> js ''com'' \<noteq> []
      \<and> list_all plain (js ''ana'') \<and> list_all plain (js ''x'') \<and> list_all plain (js ''com'')"
    by (simp add: ana_def plain_def eval_simps)
  have blank: "trim (email (ana\<lparr>email := js ''  ''\<rparr>)) = []"
    by (simp add: eval_simps)
  have nodot: "\<not> dot_after_at (email (ana\<lparr>email := js ''bad''\<rparr>))"
    by (simp add: dot_after_at_def eval_simps)
  from email_rule [of ana "\<lambda>a. NaN" "js ''ana''" "js ''x''" "js ''com''"] shape
  have 1: "map_of (validate (\<lambda>a. NaN) ana) ''email'' = None"
    by blast
  from email_rule [of "ana\<lparr>email := js ''  ''\<rparr>" "\<lambda>a. NaN" "[]" "[]" "[]"] blank
  have 2: "map_of (validate (\<lambda>a. NaN) (ana\<lparr>email := js ''  ''\<rparr>)) ''email''
             = Some ''Email is required.''"
    by blast
  from email_rule [of "ana\<lparr>email := js ''bad''\<rparr>" "\<lambda>a. NaN" "[]" "[]" "[]"] nodot
  have 3: "map_of (validate (\<lambda>a. NaN) (ana\<lparr>email := js ''bad''\<rparr>)) ''email'' \<noteq> None"
    by blast
  from 1 2 3 nodot show ?thesis by simp
qed

text \<open>
  The string \<open>a@b.\<close> has no whitespace, exactly one \<open>@\<close> and a \<open>.\<close> after it, and the
  validator rejects it: nothing follows the \<open>.\<close>.
\<close>

theorem email_trailing_dot_rejected:
  "list_all (\<lambda>c. \<not> is_space c) (js ''a@b.'') \<and> count_list (js ''a@b.'') at_sign = 1
   \<and> dot_after_at (js ''a@b.'')
   \<and> map_of (validate (\<lambda>a. NaN) (ana\<lparr>email := js ''a@b.''\<rparr>)) ''email''
       = Some ''Enter a valid email.''"
  by (simp add: validate_def ana_def eval_simps dot_after_at_def)

subsection \<open>The hobbies checkboxes\<close>

lemma handleChange_distinct:
  "distinct (hobbies (form s)) \<Longrightarrow> ui_event s (Change t) \<Longrightarrow>
     distinct (hobbies (form (handleChange t s)))"
  by (induction t s rule: handleChange.induct)
    (auto simp add: Let_def set_field_hobbies)

lemma handler_distinct:
  assumes "distinct (hobbies (form s))" "ui_event s ev"
  shows "distinct (hobbies (form (snd (handler Number fits ev s))))"
proof (cases ev)
  case (Change t)
  with assms show ?thesis by (simp add: handleChange_distinct)
next
  case (FilePick picked)
  with assms show ?thesis by (simp add: handleFile_def)
next
  case (Submit now)
  have "form (snd (saveSubmission fits now (submissions s) (form s) None (s\<lparr>errors := []\<rparr>)))
          = form s
        \<or> form (snd (saveSubmission fits now (submissions s) (form s) None (s\<lparr>errors := []\<rparr>)))
          = default_form"
    using saveSubmission_form [of fits now "submissions s" "form s" None "s\<lparr>errors := []\<rparr>"]
    by simp
  with Submit assms show ?thesis
    by (auto simp add: handleSubmit_def Let_def default_form_def split: option.splits)
next
  case (ReaderLoad k dataUrl now)
  let ?s1 = "s\<lparr>readers := take k (readers s) @ drop (Suc k) (readers s)\<rparr>"
  have "form (snd (saveSubmission fits now (snd (readers s ! k)) (fst (readers s ! k))
                     (Some dataUrl) ?s1)) = form s
        \<or> form (snd (saveSubmission fits now (snd (readers s ! k)) (fst (readers s ! k))
                     (Some dataUrl) ?s1)) = default_form"
    using saveSubmission_form [of fits now "snd (readers s ! k)" "fst (readers s ! k)"
        "Some dataUrl" ?s1]
    by simp
  with ReaderLoad assms show ?thesis
    by (auto simp add: reader_onload_def default_form_def)
next
  case (Delete ts)
  with assms show ?thesis by (simp add: handleDelete_def setItem_def Let_def)
next
  case Reset
  then show ?thesis by (simp add: reset_def default_form_def)
qed

lemma ui_run_distinct:
  "distinct (hobbies (form s)) \<Longrightarrow> ui_run Number fits evs s \<Longrightarrow>
     distinct (hobbies (form (run Number fits evs s)))"
  by (induction evs arbitrary: s) (simp_all add: dispatch_def form_commit handler_distinct)

text \<open>
  Claim C3, as the code has it. A check event appends the value to \<open>hobbies\<close> without
  looking whether it is there; when the value is absent, a duplicate-free \<open>hobbies\<close>
  stays duplicate-free. An uncheck event removes every occurrence of the value, and
  changes nothing when the value is absent. Along any sequence of events in which the
  hobby boxes behave as the controlled checkboxes they are (a check arrives only for
  an absent value, an uncheck only for a present one), started at the initial state,
  \<open>hobbies\<close> never holds a duplicate.
\<close>

theorem hobby_toggle:
  "hobbies (form (handleChange (Checkbox Hobbies v True) s)) = hobbies (form s) @ [v]
   \<and> (v \<notin> set (hobbies (form s)) \<and> distinct (hobbies (form s)) \<longrightarrow>
        distinct (hobbies (form (handleChange (Checkbox Hobbies v True) s))))
   \<and> hobbies (form (handleChange (Checkbox Hobbies v False) s)) = removeAll v (hobbies (form s))
   \<and> v \<notin> set (hobbies (form (handleChange (Checkbox Hobbies v False) s)))
   \<and> (distinct (hobbies (form s)) \<longrightarrow>
        distinct (hobbies (form (handleChange (Checkbox Hobbies v False) s))))
   \<and> (v \<notin> set (hobbies (form s)) \<longrightarrow> handleChange (Checkbox Hobbies v False) s = s)
   \<and> (ui_run Number fits evs (initial saved) \<longrightarrow>
        distinct (hobbies (form (run Number fits evs (initial saved)))))"
proof -
  have "distinct (hobbies (form (initial saved)))"
    by (simp add: initial_def default_form_def)
  then have "ui_run Number fits evs (initial saved) \<longrightarrow>
        distinct (hobbies (form (run Number fits evs (initial saved))))"
    by (simp add: ui_run_distinct)
  then show ?thesis
    by (simp add: filter_neq_removeAll distinct_removeAll)
qed

text \<open>Checking, unchecking and checking \<open>coding\<close> again, from the initial state.\<close>

theorem hobby_toggle_witness:
  "hobbies (form (handleChange (Checkbox Hobbies (js ''coding'') True) (initial None)))
     = [js ''coding'']
   \<and> distinct (hobbies (form (handleChange (Checkbox Hobbies (js ''coding'') True) (initial None))))
   \<and> handleChange (Checkbox Hobbies (js ''coding'') False) (initial None) = initial None
   \<and> ui_run (\<lambda>a. NaN) (\<lambda>xs. True)
        [Change (Checkbox Hobbies (js ''coding'') True),
         Change (Checkbox Hobbies (js ''coding'') False),
         Change (Checkbox Hobbies (js ''coding'') True)] (initial None)
   \<and> distinct (hobbies (form (run (\<lambda>a. NaN) (\<lambda>xs. True)
        [Change (Checkbox Hobbies (js ''coding'') True),
         Change (Checkbox Hobbies (js ''coding'') False),
         Change (Checkbox Hobbies (js ''coding'') True)] (initial None))))"
proof -
  have h: "hobbies (form (initial None)) = []"
    by (simp add: initial_def default_form_def)
  have u: "ui_run (\<lambda>a. NaN) (\<lambda>xs. True)
        [Change (Checkbox Hobbies (js ''coding'') True),
         Change (Checkbox Hobbies (js ''coding'') False),
         Change (Checkbox Hobbies (js ''coding'') True)] (initial None)"
    by (simp add: dispatch_def form_commit h)
  from hobby_toggle [of "js ''coding''" "initial None" "\<lambda>a. NaN" "\<lambda>xs. True"
      "[Change (Checkbox Hobbies (js ''coding'') True),
        Change (Checkbox Hobbies (js ''coding'') False),
        Change (Checkbox Hobbies (js ''coding'') True)]" None] h u
  show ?thesis by simp
qed

text \<open>
  Two check events for \<open>coding\<close> in a row, from the initial state: the second finds
  the value present and appends it again.
\<close>

theorem check_present_hobby_duplicates:
  "hobbies (form (run (\<lambda>a. NaN) (\<lambda>xs. True)
      [Change (Checkbox Hobbies (js ''coding'') True),
       Change (Checkbox Hobbies (js ''coding'') True)]
      (initial None))) = [js ''coding'', js ''coding'']"
  by (simp add: dispatch_def commit_def initial_def default_form_def)

subsection \<open>Deleting\<close>

lemma handleDelete_refused:
  "\<not> fits (filter (\<lambda>r. timestamp r \<noteq> ts) (submissions s)) \<Longrightarrow>
     handleDelete fits ts s =
       (Some QuotaExceededError,
        s\<lparr>submissions := filter (\<lambda>r. timestamp r \<noteq> ts) (submissions s)\<rparr>)"
  by (simp add: handleDelete_def setItem_def Let_def)

text \<open>
  Claim C6, as the code has it. \<open>handleDelete\<close> keeps in memory exactly the records
  whose timestamp is not the argument: when exactly one record has the timestamp, the
  result is the sequence without it, the others in their order; when no record has
  it, the sequence is unchanged. In both cases it then writes that sequence as the
  whole snapshot, and it ends without an error exactly when the browser accepts this
  write. Accepted, the snapshot is the sequence in memory; so for an absent timestamp
  the snapshot written is the unchanged sequence, the log a snapshot in step with
  memory stands for is unchanged, and a state whose snapshot is the sequence is left
  as it is. Refused, \<open>QuotaExceededError\<close> leaves the handler and the snapshot is as it
  was, also when no record has the timestamp.
\<close>

theorem delete_by_timestamp:
  "submissions (snd (handleDelete fits ts s)) = filter (\<lambda>r. timestamp r \<noteq> ts) (submissions s)
   \<and> (fst (handleDelete fits ts s) = None
        \<longleftrightarrow> fits (filter (\<lambda>r. timestamp r \<noteq> ts) (submissions s)))
   \<and> (fits (filter (\<lambda>r. timestamp r \<noteq> ts) (submissions s)) \<longrightarrow>
        storage (snd (handleDelete fits ts s)) = Some (submissions (snd (handleDelete fits ts s))))
   \<and> (\<not> fits (filter (\<lambda>r. timestamp r \<noteq> ts) (submissions s)) \<longrightarrow>
        fst (handleDelete fits ts s) = Some QuotaExceededError
        \<and> storage (snd (handleDelete fits ts s)) = storage s)
   \<and> (submissions s = xs @ r # ys \<and> timestamp r = ts \<and> ts \<notin> timestamp ` set (xs @ ys) \<longrightarrow>
        submissions (snd (handleDelete fits ts s)) = xs @ ys)
   \<and> (ts \<notin> timestamp ` set (submissions s) \<longrightarrow>
        submissions (snd (handleDelete fits ts s)) = submissions s
        \<and> (fits (submissions s) \<longrightarrow>
             handleDelete fits ts s = (None, s\<lparr>storage := Some (submissions s)\<rparr>))
        \<and> (fits (submissions s) \<and> loaded (storage s) = submissions s \<longrightarrow>
             loaded (storage (snd (handleDelete fits ts s))) = loaded (storage s))
        \<and> (fits (submissions s) \<and> storage s = Some (submissions s) \<longrightarrow>
             handleDelete fits ts s = (None, s))
        \<and> (\<not> fits (submissions s) \<longrightarrow>
             handleDelete fits ts s = (Some QuotaExceededError, s)))"
proof -
  have one: "submissions s = xs @ r # ys \<and> timestamp r = ts \<and> ts \<notin> timestamp ` set (xs @ ys) \<longrightarrow>
        filter (\<lambda>r. timestamp r \<noteq> ts) (submissions s) = xs @ ys"
    by (auto simp add: filter_absent image_Un)
  have none: "ts \<notin> timestamp ` set (submissions s) \<longrightarrow>
        filter (\<lambda>r. timestamp r \<noteq> ts) (submissions s) = submissions s"
    using filter_absent by blast
  show ?thesis
  proof (cases "fits (filter (\<lambda>r. timestamp r \<noteq> ts) (submissions s))")
    case True
    with one none handleDelete_fits [of fits ts s] show ?thesis
      by (auto simp add: handleDelete_submissions)
  next
    case False
    with one none handleDelete_refused [of fits ts s] show ?thesis
      by (auto simp add: handleDelete_submissions)
  qed
qed

text \<open>
  A log of two records: deleting the timestamp of the first leaves the second;
  deleting a timestamp that no record has leaves the state as it is.
\<close>

theorem delete_by_timestamp_witness:
  "handleDelete (\<lambda>xs. True) (js ''t1'')
      (initial (Some [toSave ana None (js ''t1''), toSave ana None (js ''t2'')]))
     = (None, initial (Some [toSave ana None (js ''t2'')]))
   \<and> handleDelete (\<lambda>xs. True) (js ''t3'')
        (initial (Some [toSave ana None (js ''t1''), toSave ana None (js ''t2'')]))
     = (None, initial (Some [toSave ana None (js ''t1''), toSave ana None (js ''t2'')]))"
proof -
  let ?s = "initial (Some [toSave ana None (js ''t1''), toSave ana None (js ''t2'')])"
  have sub: "submissions ?s = [] @ toSave ana None (js ''t1'') # [toSave ana None (js ''t2'')]"
    "storage ?s = Some (submissions ?s)"
    by (simp_all add: initial_def)
  have ts: "timestamp (toSave ana None (js ''t1'')) = js ''t1''"
    "js ''t1'' \<notin> timestamp ` set ([] @ [toSave ana None (js ''t2'')])"
    "js ''t3'' \<notin> timestamp ` set (submissions ?s)"
    by (simp_all add: initial_def toSave_def js_simps)
  from delete_by_timestamp [of "\<lambda>xs. True" "js ''t1''" ?s "[]" "toSave ana None (js ''t1'')"
      "[toSave ana None (js ''t2'')]"] sub ts
  have 1: "fst (handleDelete (\<lambda>xs. True) (js ''t1'') ?s) = None"
    "submissions (snd (handleDelete (\<lambda>xs. True) (js ''t1'') ?s)) = [toSave ana None (js ''t2'')]"
    "storage (snd (handleDelete (\<lambda>xs. True) (js ''t1'') ?s)) = Some [toSave ana None (js ''t2'')]"
    by simp_all
  have "snd (handleDelete (\<lambda>xs. True) (js ''t1'') ?s) = initial (Some [toSave ana None (js ''t2'')])"
    using 1(2,3) by (simp add: handleDelete_def setItem_def Let_def initial_def)
  with 1(1) have a: "handleDelete (\<lambda>xs. True) (js ''t1'') ?s
      = (None, initial (Some [toSave ana None (js ''t2'')]))"
    by (simp add: prod_eq_iff)
  from delete_by_timestamp [of "\<lambda>xs. True" "js ''t3''" ?s "[]" "toSave ana None (js ''t1'')"
      "[toSave ana None (js ''t2'')]"] sub ts
  have b: "handleDelete (\<lambda>xs. True) (js ''t3'') ?s = (None, ?s)"
    by simp
  from a b show ?thesis by simp
qed

text \<open>
  One record stored by an earlier visit, and a browser with room for one record.
  Ana's form is submitted: the write is refused, the new record is in memory only.
  Deleting the timestamp \<open>t9\<close>, which no record has, then raises the error.
\<close>

theorem delete_absent_refused:
  "map timestamp (submissions (run (\<lambda>a. NaN) (\<lambda>xs. length xs \<le> 1)
       (fill_ana @ [Submit (js ''t1'')]) (initial (Some [toSave ana None (js ''t0'')]))))
     = [js ''t1'', js ''t0'']
   \<and> map timestamp (loaded (storage (run (\<lambda>a. NaN) (\<lambda>xs. length xs \<le> 1)
       (fill_ana @ [Submit (js ''t1'')]) (initial (Some [toSave ana None (js ''t0'')])))))
     = [js ''t0'']
   \<and> js ''t9'' \<notin> set [js ''t1'', js ''t0'']
   \<and> fst (handleDelete (\<lambda>xs. length xs \<le> 1) (js ''t9'')
       (run (\<lambda>a. NaN) (\<lambda>xs. length xs \<le> 1)
          (fill_ana @ [Submit (js ''t1'')]) (initial (Some [toSave ana None (js ''t0'')]))))
     = Some QuotaExceededError"
  by (simp add: fill_ana_def dispatch_def commit_def initial_def default_form_def
      handleSubmit_def saveSubmission_def handleDelete_def setItem_def toSave_def validate_def
      eval_simps Let_def)

text \<open>
  Claim C10, as the code has it. After \<open>handleDelete\<close> no record in memory has the
  timestamp, however many had it, and every record with another timestamp is kept.
  When the browser accepts the write, the handler ends without an error and the
  stored snapshot is that same sequence, so no record of it has the timestamp
  either. When the browser refuses the write, \<open>QuotaExceededError\<close> leaves the handler
  and the snapshot is as it was.
\<close>

theorem delete_removes_all:
  "ts \<notin> timestamp ` set (submissions (snd (handleDelete fits ts s)))
   \<and> (\<forall>r. r \<in> set (submissions s) \<and> timestamp r \<noteq> ts \<longrightarrow>
        r \<in> set (submissions (snd (handleDelete fits ts s))))
   \<and> (fits (filter (\<lambda>r. timestamp r \<noteq> ts) (submissions s)) \<longrightarrow>
        fst (handleDelete fits ts s) = None
        \<and> storage (snd (handleDelete fits ts s))
            = Some (filter (\<lambda>r. timestamp r \<noteq> ts) (submissions s))
        \<and> ts \<notin> timestamp ` set (loaded (storage (snd (handleDelete fits ts s)))))
   \<and> (\<not> fits (filter (\<lambda>r. timestamp r \<noteq> ts) (submissions s)) \<longrightarrow>
        fst (handleDelete fits ts s) = Some QuotaExceededError
        \<and> storage (snd (handleDelete fits ts s)) = storage s)"
proof (cases "fits (filter (\<lambda>r. timestamp r \<noteq> ts) (submissions s))")
  case True
  with handleDelete_fits [of fits ts s] show ?thesis
    by (auto simp add: handleDelete_submissions)
next
  case False
  with handleDelete_refused [of fits ts s] show ?thesis
    by (auto simp add: handleDelete_submissions)
qed

text \<open>Two records share the timestamp \<open>t1\<close>, one between them has \<open>t2\<close>.\<close>

theorem delete_removes_all_witness:
  "handleDelete (\<lambda>xs. True) (js ''t1'')
     (initial (Some [toSave ana None (js ''t1''), toSave ana None (js ''t2''),
                     toSave (ana\<lparr>bio := js ''again''\<rparr>) None (js ''t1'')]))
   = (None, initial (Some [toSave ana None (js ''t2'')]))"
proof -
  let ?s = "initial (Some [toSave ana None (js ''t1''), toSave ana None (js ''t2''),
                     toSave (ana\<lparr>bio := js ''again''\<rparr>) None (js ''t1'')])"
  have f: "filter (\<lambda>r. timestamp r \<noteq> js ''t1'') (submissions ?s) = [toSave ana None (js ''t2'')]"
    by (simp add: initial_def toSave_def js_simps)
  from delete_removes_all [of "js ''t1''" "\<lambda>xs. True" ?s]
  have "fst (handleDelete (\<lambda>xs. True) (js ''t1'') ?s) = None"
    and "storage (snd (handleDelete (\<lambda>xs. True) (js ''t1'') ?s))
           = Some [toSave ana None (js ''t2'')]"
    using f by simp_all
  moreover have "snd (handleDelete (\<lambda>xs. True) (js ''t1'') ?s)
      = initial (Some [toSave ana None (js ''t2'')])"
    using f by (simp add: handleDelete_fits) (simp add: initial_def)
  ultimately show ?thesis
    by (simp add: prod_eq_iff)
qed

text \<open>
  One record stored by an earlier visit, and a browser that now refuses every write.
  Ana's form is submitted (refused, the record is in memory only), then the stored
  record's timestamp \<open>t0\<close> is deleted: it is gone from memory and still in the snapshot.
\<close>

theorem delete_refused_keeps_snapshot:
  "map timestamp (submissions (run (\<lambda>a. NaN) (\<lambda>xs. False)
       (fill_ana @ [Submit (js ''t1''), Delete (js ''t0'')])
       (initial (Some [toSave ana None (js ''t0'')]))))
     = [js ''t1'']
   \<and> map timestamp (loaded (storage (run (\<lambda>a. NaN) (\<lambda>xs. False)
       (fill_ana @ [Submit (js ''t1''), Delete (js ''t0'')])
       (initial (Some [toSave ana None (js ''t0'')])))))
     = [js ''t0'']"
  by (simp add: fill_ana_def dispatch_def commit_def initial_def default_form_def
      handleSubmit_def saveSubmission_def handleDelete_def setItem_def toSave_def validate_def
      eval_simps Let_def)

subsection \<open>Timestamps\<close>













subsection \<open>The preview handle\<close>

lemma preview_inv_initial: "preview_inv (initial saved)"
  by (simp add: preview_inv_def initial_def default_form_def)

lemma handleChange_frame: "same_browser s (handleChange t s)"
  by (induction t s rule: handleChange.induct) (simp_all add: same_browser_def Let_def)

lemma handler_frame: "same_browser s (snd (handler Number fits ev s))"
proof (cases ev)
  case (Change t)
  then show ?thesis by (simp add: handleChange_frame)
next
  case (FilePick picked)
  then show ?thesis by (simp add: same_browser_def handleFile_def)
next
  case (Submit now)
  have "same_browser (s\<lparr>errors := []\<rparr>)
          (snd (saveSubmission fits now (submissions s) (form s) None (s\<lparr>errors := []\<rparr>)))"
    by (rule saveSubmission_frame)
  with Submit show ?thesis
    by (auto simp add: same_browser_def handleSubmit_def Let_def split: option.splits)
next
  case (ReaderLoad k dataUrl now)
  let ?s1 = "s\<lparr>readers := take k (readers s) @ drop (Suc k) (readers s)\<rparr>"
  have "same_browser ?s1
          (snd (saveSubmission fits now (snd (readers s ! k)) (fst (readers s ! k))
                  (Some dataUrl) ?s1))"
    by (rule saveSubmission_frame)
  with ReaderLoad show ?thesis
    by (auto simp add: same_browser_def reader_onload_def)
next
  case (Delete ts)
  then show ?thesis
    by (simp add: same_browser_def handleDelete_def setItem_def Let_def)
next
  case Reset
  then show ?thesis
    by (simp add: same_browser_def reset_def default_form_def)
qed

lemma cleanup_releases:
  "live_urls s = (case cleanup s of None \<Rightarrow> [] | Some u \<Rightarrow> [u]) \<Longrightarrow>
     live_urls (run_cleanup s) = []"
  by (simp add: run_cleanup_def revokeObjectURL_def split: option.splits)

lemma commit_inv:
  assumes "preview_inv s" "same_browser s h"
  shows "preview_inv (commit h)"
  using assms
  by (auto simp add: preview_inv_def same_browser_def commit_def preview_effect_def
      run_cleanup_def revokeObjectURL_def createObjectURL_def Let_def split: option.splits)

lemma dispatch_inv: "preview_inv s \<Longrightarrow> preview_inv (dispatch Number fits ev s)"
  unfolding dispatch_def by (rule commit_inv [OF _ handler_frame])

lemma run_inv: "preview_inv s \<Longrightarrow> preview_inv (run Number fits evs s)"
  by (induction evs arbitrary: s) (simp_all add: dispatch_inv)

text \<open>
  Claim C9. In every state the component reaches from its initial state, by any
  sequence of events, at most one object URL is live; when \<open>form.profile\<close> is null
  none is live and \<open>preview\<close> is null; when it is not, the one live URL is the one
  shown. At the next event, whatever it is, once the cleanup of the previous effect
  has run no URL is live, so the effect creates the next URL only after the prior one
  was revoked, and after the event again at most one is live: none is left behind.
\<close>

theorem one_live_preview_handle:
  assumes "s = run Number fits evs (initial saved)"
  shows "length (live_urls s) \<le> 1
         \<and> (profile (form s) = None \<longrightarrow> live_urls s = [] \<and> preview s = None)
         \<and> (profile (form s) \<noteq> None \<longrightarrow> (\<exists>u. live_urls s = [u] \<and> preview s = Some u))
         \<and> live_urls (run_cleanup (snd (handler Number fits ev s))) = []
         \<and> length (live_urls (dispatch Number fits ev s)) \<le> 1"
proof -
  have inv: "preview_inv s"
    using assms by (simp add: run_inv preview_inv_initial)
  have fr: "same_browser s (snd (handler Number fits ev s))"
    by (rule handler_frame)
  have "live_urls (snd (handler Number fits ev s))
          = (case cleanup (snd (handler Number fits ev s)) of None \<Rightarrow> [] | Some u \<Rightarrow> [u])"
    using inv fr by (simp add: preview_inv_def same_browser_def)
  then have rel: "live_urls (run_cleanup (snd (handler Number fits ev s))) = []"
    by (rule cleanup_releases)
  have "preview_inv (dispatch Number fits ev s)"
    using inv by (rule dispatch_inv)
  then have nxt: "length (live_urls (dispatch Number fits ev s)) \<le> 1"
    by (simp add: preview_inv_def split: option.splits)
  from inv rel nxt show ?thesis
    by (auto simp add: preview_inv_def split: option.splits)
qed

text \<open>
  Three files picked one after the other, then the selection cleared: three URLs
  were handed out, the third alone is live before the clearing, none after it.
\<close>

theorem one_live_preview_handle_witness:
  "live_urls (run (\<lambda>a. NaN) (\<lambda>xs. True)
      [FilePick (Some (File 1 [0])), FilePick (Some (File 2 [1])), FilePick (Some (File 3 [2]))]
      (initial None)) = [2]
   \<and> preview (run (\<lambda>a. NaN) (\<lambda>xs. True)
      [FilePick (Some (File 1 [0])), FilePick (Some (File 2 [1])), FilePick (Some (File 3 [2]))]
      (initial None)) = Some 2
   \<and> live_urls (dispatch (\<lambda>a. NaN) (\<lambda>xs. True) (FilePick None)
       (run (\<lambda>a. NaN) (\<lambda>xs. True)
          [FilePick (Some (File 1 [0])), FilePick (Some (File 2 [1])),
           FilePick (Some (File 3 [2]))]
          (initial None))) = []
   \<and> length (live_urls (run (\<lambda>a. NaN) (\<lambda>xs. True)
      [FilePick (Some (File 1 [0])), FilePick (Some (File 2 [1])), FilePick (Some (File 3 [2]))]
      (initial None))) \<le> 1"
proof -
  let ?s = "run (\<lambda>a. NaN) (\<lambda>xs. True)
      [FilePick (Some (File 1 [0])), FilePick (Some (File 2 [1])), FilePick (Some (File 3 [2]))]
      (initial None)"
  have l: "live_urls ?s = [2]" and p: "preview ?s = Some 2"
    and d: "live_urls (dispatch (\<lambda>a. NaN) (\<lambda>xs. True) (FilePick None) ?s) = []"
    by (simp_all add: dispatch_def commit_def handleFile_def preview_effect_def run_cleanup_def
        revokeObjectURL_def createObjectURL_def initial_def default_form_def Let_def)
  from one_live_preview_handle [OF refl, of "\<lambda>a. NaN" "\<lambda>xs. True"
      "[FilePick (Some (File 1 [0])), FilePick (Some (File 2 [1])), FilePick (Some (File 3 [2]))]"
      None "FilePick None"]
  have "length (live_urls ?s) \<le> 1"
    by blast
  with l p d show ?thesis by simp
qed

end
